theory Spec2Isabelle
  imports Complex_Main
begin

section \<open>JavaScript values\<close>

text \<open>
  The values that \<^verbatim>\<open>res.json()\<close> can produce and that the page globals
  \<^verbatim>\<open>window.currentUser\<close> and \<^verbatim>\<open>window.SKIP_AUTH_GUARD\<close> can hold. An object is
  the list of its own properties; the first binding of a name is the property's value.
  \<open>JUndefined\<close> is the value of a global that was never assigned and of a property
  that is absent. A number carries the value it was parsed to; only whether it is zero
  is ever inspected.
\<close>

datatype jsval =
    JUndefined
  | JNull
  | JBool bool
  | JNum rat
  | JStr string
  | JArr "jsval list"
  | JObj "(string \<times> jsval) list"

datatype error =
    TypeError string
  | SyntaxError string
  | DOMException string
  | Error string

text \<open>JavaScript's \<^verbatim>\<open>ToBoolean\<close>, as used by \<^verbatim>\<open>if\<close>, \<^verbatim>\<open>!\<close> and \<^verbatim>\<open>&&\<close>.\<close>

fun truthy :: "jsval \<Rightarrow> bool" where
  "truthy JUndefined = False"
| "truthy JNull = False"
| "truthy (JBool b) = b"
| "truthy (JNum n) = (n \<noteq> 0)"
| "truthy (JStr s) = (s \<noteq> [])"
| "truthy (JArr xs) = True"
| "truthy (JObj fs) = True"

text \<open>
  The member access \<^verbatim>\<open>data.user\<close>. It throws a \<^verbatim>\<open>TypeError\<close> on
  \<^verbatim>\<open>null\<close> and \<^verbatim>\<open>undefined\<close>; on an object it is the own property
  \<^verbatim>\<open>user\<close> or \<^verbatim>\<open>undefined\<close>; no built-in prototype defines a property of
  that name, so on primitives and arrays it is \<^verbatim>\<open>undefined\<close>.
\<close>

fun get_user :: "jsval \<Rightarrow> error + jsval" where
  "get_user JUndefined = Inl (TypeError ''Cannot read properties of undefined'')"
| "get_user JNull = Inl (TypeError ''Cannot read properties of null'')"
| "get_user (JObj fs) = Inr (case map_of fs ''user'' of None \<Rightarrow> JUndefined | Some v \<Rightarrow> v)"
| "get_user v = Inr JUndefined"

text \<open>The optional chain \<^verbatim>\<open>data?.user\<close>: \<^verbatim>\<open>undefined\<close> on a nullish base.\<close>

definition opt_user :: "jsval \<Rightarrow> error + jsval" where
  "opt_user v = (if v = JNull \<or> v = JUndefined then Inr JUndefined else get_user v)"

text \<open>The nullish coalescing operator \<^verbatim>\<open>a ?? b\<close>.\<close>

definition nullish :: "jsval \<Rightarrow> jsval \<Rightarrow> jsval" where
  "nullish a b = (if a = JNull \<or> a = JUndefined then b else a)"

section \<open>The browser as explicit state\<close>

text \<open>
  A response of \<^verbatim>\<open>fetch\<close>: its status code and what \<^verbatim>\<open>res.json()\<close> gives,
  a parse error (\<open>Inl\<close>) or the parsed value. \<^verbatim>\<open>res.ok\<close> is not a field of its own:
  the Fetch standard defines it as the status lying in 200..299.
\<close>

record response =
  status :: nat
  json :: "error + jsval"

definition ok :: "response \<Rightarrow> bool" where
  "ok res = (200 \<le> status res \<and> status res \<le> 299)"

datatype fetch_outcome = Rejected error | Resolved response

text \<open>
  What the scripts cannot control: how the backend answers a request (by method and URL),
  and whether a \<^verbatim>\<open>localStorage.removeItem\<close> of a key throws (storage blocked or
  unavailable).
\<close>

record env =
  backend :: "string \<Rightarrow> string \<Rightarrow> fetch_outcome"
  removeItem_throws :: "string \<Rightarrow> bool"

text \<open>Every effect a script has on the outside, in the order it happens.\<close>

datatype event =
    Fetch string string
  | Navigate string
  | ConsoleError string error
  | SetCurrentUser jsval
  | RemoveItem string
  | PreventDefault

text \<open>
  The page-wide state: \<^verbatim>\<open>window.location.href\<close>, the two globals, the contents of
  \<^verbatim>\<open>localStorage\<close>, whether the document has an element with id
  \<^verbatim>\<open>logoutBtn\<close> and how many click listeners the guard script attached to it, and
  the trace of effects so far.
\<close>

record window =
  location_href :: string
  currentUser :: jsval
  SKIP_AUTH_GUARD :: jsval
  localStorage :: "string \<rightharpoonup> string"
  logoutBtn :: bool
  logoutBtn_listeners :: nat
  trace :: "event list"

definition emit :: "event \<Rightarrow> window \<Rightarrow> window" where
  "emit ev w = w\<lparr>trace := trace w @ [ev]\<rparr>"

text \<open>
  \<^verbatim>\<open>await fetch(url, { method })\<close>: the request goes out, the backend's outcome
  comes back. Every request is taken to settle, by a response or by a rejection.
\<close>

definition fetch :: "env \<Rightarrow> string \<Rightarrow> string \<Rightarrow> window \<Rightarrow> window \<times> fetch_outcome" where
  "fetch en url method w = (emit (Fetch method url) w, backend en method url)"

text \<open>
  \<^verbatim>\<open>window.location.href = url\<close>. The assignment is modelled as always
  succeeding; the script keeps running after it.
\<close>

definition navigate :: "string \<Rightarrow> window \<Rightarrow> window" where
  "navigate url w = emit (Navigate url) (w\<lparr>location_href := url\<rparr>)"

definition console_error :: "string \<Rightarrow> error \<Rightarrow> window \<Rightarrow> window" where
  "console_error msg err w = emit (ConsoleError msg err) w"

definition set_currentUser :: "jsval \<Rightarrow> window \<Rightarrow> window" where
  "set_currentUser v w = emit (SetCurrentUser v) (w\<lparr>currentUser := v\<rparr>)"

section \<open>auth.js: the guard\<close>

text \<open>
  The \<^verbatim>\<open>try\<close> block of \<^verbatim>\<open>checkAuth\<close> (lines 9 to 23): \<open>Inr v\<close> is
  \<^verbatim>\<open>return v\<close>, \<open>Inl e\<close> is the exception \<open>e\<close> reaching the \<^verbatim>\<open>catch\<close>.
  The condition \<^verbatim>\<open>data && data.user\<close> reads \<^verbatim>\<open>data.user\<close> only when
  \<^verbatim>\<open>data\<close> is truthy.
\<close>

definition checkAuth_try :: "env \<Rightarrow> window \<Rightarrow> window \<times> (error + jsval)" where
  "checkAuth_try en w =
     (case fetch en ''/api/me'' ''GET'' w of
        (w1, Rejected e) \<Rightarrow> (w1, Inl e)
      | (w1, Resolved res) \<Rightarrow>
          if \<not> ok res then
            (if status res = 401 then (navigate ''/login'' w1, Inr JNull)
             else (w1, Inl (Error ''Auth check failed'')))
          else
            (case json res of
               Inl e \<Rightarrow> (w1, Inl e)
             | Inr data \<Rightarrow>
                 (case (if truthy data then get_user data else Inr data) of
                    Inl e \<Rightarrow> (w1, Inl e)
                  | Inr c \<Rightarrow>
                      (case (if truthy c then
                               (case get_user data of
                                  Inl e \<Rightarrow> (w1, Some e)
                                | Inr u \<Rightarrow> (set_currentUser u w1, None))
                             else (w1, None)) of
                         (w2, Some e) \<Rightarrow> (w2, Inl e)
                       | (w2, None) \<Rightarrow>
                           (case opt_user data of
                              Inl e \<Rightarrow> (w2, Inl e)
                            | Inr u \<Rightarrow> (w2, Inr (nullish u JNull)))))))"

text \<open>
  \<^verbatim>\<open>checkAuth\<close> with its \<^verbatim>\<open>catch\<close> (lines 24 to 29): log, go to the login page,
  return \<^verbatim>\<open>null\<close>.
\<close>

definition checkAuth :: "env \<Rightarrow> window \<Rightarrow> window \<times> jsval" where
  "checkAuth en w =
     (case checkAuth_try en w of
        (w1, Inr v) \<Rightarrow> (w1, v)
      | (w1, Inl err) \<Rightarrow>
          (navigate ''/login'' (console_error ''Error during auth check:'' err w1), JNull))"

section \<open>auth.js: logout\<close>

text \<open>
  \<^verbatim>\<open>localStorage.removeItem(key)\<close> as a statement: it either throws, leaving the
  storage as it is, or deletes the key. The second component is the exception, if any.
\<close>

definition removeItem :: "env \<Rightarrow> string \<Rightarrow> window \<Rightarrow> window \<times> error option" where
  "removeItem en k w =
     (if removeItem_throws en k then (w, Some (DOMException ''SecurityError''))
      else (emit (RemoveItem k) (w\<lparr>localStorage := (localStorage w)(k := None)\<rparr>), None))"

text \<open>
  Statements in sequence: the first one that throws ends the block, and what the
  earlier ones did stays done.
\<close>

fun run_stmts :: "(window \<Rightarrow> window \<times> error option) list \<Rightarrow> window \<Rightarrow> window \<times> error option" where
  "run_stmts [] w = (w, None)"
| "run_stmts (s # ss) w =
     (case s w of
        (w1, Some e) \<Rightarrow> (w1, Some e)
      | (w1, None) \<Rightarrow> run_stmts ss w1)"

text \<open>
  \<^verbatim>\<open>doLogout\<close> (lines 32 to 46). Both \<^verbatim>\<open>catch\<close> clauses are empty, so the
  outcome of the request and the exception of the storage block are dropped.
\<close>

definition doLogout :: "env \<Rightarrow> window \<Rightarrow> window" where
  "doLogout en w =
     (let w1 = fst (fetch en ''/api/logout'' ''POST'' w);
          w2 = fst (run_stmts
                 [removeItem en ''jobly_user'',
                  removeItem en ''authEmail'',
                  removeItem en ''employerRegistration'',
                  removeItem en ''ultimaVacanteId''] w1)
      in navigate ''/login'' w2)"

text \<open>\<^verbatim>\<open>window.handleLogout = doLogout\<close> (line 49).\<close>

definition handleLogout :: "env \<Rightarrow> window \<Rightarrow> window" where
  "handleLogout = doLogout"

text \<open>The click listener of the logout button (line 55).\<close>

definition logoutBtn_click :: "env \<Rightarrow> window \<Rightarrow> window" where
  "logoutBtn_click en w = doLogout en (emit PreventDefault w)"

text \<open>
  The \<^verbatim>\<open>DOMContentLoaded\<close> listener (lines 52 to 62). The call of
  \<^verbatim>\<open>checkAuth\<close> is not awaited and its result is dropped; its effects are taken as
  one step.
\<close>

definition onDOMContentLoaded :: "env \<Rightarrow> window \<Rightarrow> window" where
  "onDOMContentLoaded en w =
     (let w1 = (if logoutBtn w then w\<lparr>logoutBtn_listeners := Suc (logoutBtn_listeners w)\<rparr> else w)
      in if \<not> truthy (SKIP_AUTH_GUARD w1) then fst (checkAuth en w1) else w1)"

text \<open>The network requests among the effects.\<close>

fun is_Fetch :: "event \<Rightarrow> bool" where
  "is_Fetch (Fetch m u) = True"
| "is_Fetch ev = False"

section \<open>script.js: the bookmark control\<close>

text \<open>
  The attributes of an element; \<^verbatim>\<open>getAttribute\<close> of an absent attribute is
  \<^verbatim>\<open>null\<close>, here \<open>None\<close>.
\<close>

type_synonym attrs = "string \<rightharpoonup> string"

definition getAttribute :: "attrs \<Rightarrow> string \<Rightarrow> string option" where
  "getAttribute el k = el k"

definition setAttribute :: "attrs \<Rightarrow> string \<Rightarrow> string \<Rightarrow> attrs" where
  "setAttribute el k v = el(k \<mapsto> v)"

record click_event =
  propagationStopped :: bool

definition stopPropagation :: "click_event \<Rightarrow> click_event" where
  "stopPropagation e = e\<lparr>propagationStopped := True\<rparr>"

text \<open>
  Line 28, \<^verbatim>\<open>svg.getAttribute('fill') !== 'none'\<close>: a path without a
  \<^verbatim>\<open>fill\<close> attribute counts as filled.
\<close>

definition isFilled :: "attrs \<Rightarrow> bool" where
  "isFilled svg = (getAttribute svg ''fill'' \<noteq> Some ''none'')"

text \<open>Lines 30 to 36, on the path element that \<^verbatim>\<open>querySelector\<close> found.\<close>

definition toggle_path :: "attrs \<Rightarrow> attrs" where
  "toggle_path svg =
     (if isFilled svg then
        setAttribute (setAttribute svg ''fill'' ''none'') ''stroke'' ''#141514''
      else
        setAttribute (setAttribute svg ''fill'' ''#141514'') ''stroke'' ''none'')"

text \<open>
  The bookmark's click listener (lines 25 to 37). Its second argument is the result of
  \<^verbatim>\<open>this.querySelector('svg path')\<close>: \<open>None\<close> is \<^verbatim>\<open>null\<close>, on which
  \<^verbatim>\<open>svg.getAttribute\<close> throws, after \<^verbatim>\<open>stopPropagation\<close> has run.
\<close>

definition bookmark_click :: "click_event \<Rightarrow> attrs option \<Rightarrow> click_event \<times> attrs option \<times> error option" where
  "bookmark_click e q =
     (let e1 = stopPropagation e
      in case q of
           None \<Rightarrow> (e1, None, Some (TypeError ''Cannot read properties of null''))
         | Some svg \<Rightarrow> (e1, Some (toggle_path svg), None))"

text \<open>
  The part of the landing page a bookmark click can reach: the path inside the clicked
  bookmark button, the lines written by \<^verbatim>\<open>console.log\<close>, and the exceptions that
  escaped a listener.
\<close>

record page =
  bookmark_path :: "attrs option"
  console :: "string list"
  uncaught :: "error list"

text \<open>The job card's click listener (lines 74 to 77).\<close>

definition jobCard_click :: "page \<Rightarrow> page" where
  "jobCard_click p = p\<lparr>console := console p @ [''Job card clicked'']\<rparr>"

text \<open>
  One click on a bookmark button that lies inside a job card, as the DOM dispatches it:
  the button's listener runs first; an exception escaping it is reported and does not
  end the dispatch; the event then bubbles to the card unless its propagation was
  stopped. The event is returned with the page.
\<close>

definition click_bookmark :: "page \<Rightarrow> page \<times> click_event" where
  "click_bookmark p =
     (case bookmark_click \<lparr>propagationStopped = False\<rparr> (bookmark_path p) of
        (e1, q, err) \<Rightarrow>
          let p1 = p\<lparr>bookmark_path := q,
                     uncaught := (case err of None \<Rightarrow> uncaught p | Some x \<Rightarrow> uncaught p @ [x])\<rparr>
          in (if propagationStopped e1 then p1 else jobCard_click p1, e1))"

text \<open>\<open>n\<close> clicks in a row.\<close>

fun clicks :: "nat \<Rightarrow> page \<Rightarrow> page" where
  "clicks 0 p = p"
| "clicks (Suc n) p = fst (click_bookmark (clicks n p))"

text \<open>The pair of attributes that paints the icon.\<close>

definition paint :: "page \<Rightarrow> (string option \<times> string option) option" where
  "paint p = map_option (\<lambda>svg. (getAttribute svg ''fill'', getAttribute svg ''stroke'')) (bookmark_path p)"

section \<open>Concrete backends and pages\<close>

definition answer :: "fetch_outcome \<Rightarrow> (string \<Rightarrow> bool) \<Rightarrow> env" where
  "answer out thr = \<lparr>backend = (\<lambda>m u. out), removeItem_throws = thr\<rparr>"

definition quiet :: "string \<Rightarrow> bool" where
  "quiet k = False"

definition blocked :: "string \<Rightarrow> bool" where
  "blocked k = True"

definition reply :: "nat \<Rightarrow> error + jsval \<Rightarrow> fetch_outcome" where
  "reply st b = Resolved \<lparr>status = st, json = b\<rparr>"

definition alice :: jsval where
  "alice = JObj [(''id'', JNum 7), (''email'', JStr ''alice@jobly.test''), (''rol'', JStr ''empresa'')]"

definition bob :: jsval where
  "bob = JObj [(''id'', JNum 8), (''email'', JStr ''bob@jobly.test''), (''rol'', JStr ''empresa'')]"

definition fresh :: window where
  "fresh = \<lparr>location_href = ''/empresa/panel'', currentUser = JUndefined,
            SKIP_AUTH_GUARD = JUndefined,
            localStorage = [''jobly_user'' \<mapsto> ''alice'', ''theme'' \<mapsto> ''dark''],
            logoutBtn = True, logoutBtn_listeners = 0, trace = []\<rparr>"

definition outline_icon :: attrs where
  "outline_icon = [''d'' \<mapsto> ''M5 3h14v18l-7-5-7 5z'', ''fill'' \<mapsto> ''none'', ''stroke'' \<mapsto> ''#6B7280'']"

definition card :: page where
  "card = \<lparr>bookmark_path = Some outline_icon, console = [], uncaught = []\<rparr>"

section \<open>Properties of the guard\<close>

lemma fetch_me [simp]:
  "fetch en ''/api/me'' ''GET'' w = (emit (Fetch ''GET'' ''/api/me'') w, backend en ''GET'' ''/api/me'')"
  by (simp add: fetch_def)

text \<open>
  C1. Whenever \<^verbatim>\<open>GET /api/me\<close> answers with status 401, \<^verbatim>\<open>checkAuth\<close> navigates
  to \<^verbatim>\<open>/login\<close> and never assigns \<^verbatim>\<open>window.currentUser\<close>: the run's effects are
  the request and the navigation only, every other part of the page state (the current
  user among them) is as before, and the result is \<^verbatim>\<open>null\<close>.
\<close>

theorem checkAuth_401:
  assumes "backend en ''GET'' ''/api/me'' = Resolved res" and "status res = 401"
  shows "checkAuth en w =
           (w\<lparr>location_href := ''/login'',
              trace := trace w @ [Fetch ''GET'' ''/api/me'', Navigate ''/login'']\<rparr>, JNull)
         \<and> currentUser (fst (checkAuth en w)) = currentUser w
         \<and> location_href (fst (checkAuth en w)) = ''/login''"
  using assms
  by (simp add: checkAuth_def checkAuth_try_def ok_def navigate_def emit_def)

theorem checkAuth_401_witness:
  "backend (answer (reply 401 (Inl (SyntaxError ''Unexpected end of JSON input''))) quiet)
       ''GET'' ''/api/me''
     = Resolved \<lparr>status = 401, json = Inl (SyntaxError ''Unexpected end of JSON input'')\<rparr>
   \<and> status \<lparr>status = 401, json = Inl (SyntaxError ''Unexpected end of JSON input'')\<rparr> = 401
   \<and> checkAuth (answer (reply 401 (Inl (SyntaxError ''Unexpected end of JSON input''))) quiet)
        (fresh\<lparr>currentUser := bob\<rparr>)
     = (fresh\<lparr>currentUser := bob, location_href := ''/login'',
              trace := [Fetch ''GET'' ''/api/me'', Navigate ''/login'']\<rparr>, JNull)"
proof -
  let ?r = "\<lparr>status = 401, json = Inl (SyntaxError ''Unexpected end of JSON input'')\<rparr>"
  let ?en = "answer (reply 401 (Inl (SyntaxError ''Unexpected end of JSON input''))) quiet"
  have b: "backend ?en ''GET'' ''/api/me'' = Resolved ?r"
    by (simp add: answer_def reply_def)
  have s: "status ?r = 401" by simp
  from checkAuth_401 [OF b s, of "fresh\<lparr>currentUser := bob\<rparr>"] b s
  show ?thesis by (simp add: fresh_def)
qed

text \<open>
  C2. Whenever \<^verbatim>\<open>GET /api/me\<close> succeeds and the parsed body has a \<^verbatim>\<open>user\<close>
  field holding an object, \<^verbatim>\<open>checkAuth\<close> assigns exactly that object to
  \<^verbatim>\<open>window.currentUser\<close> and returns it; the request and the assignment are the
  run's only effects.
\<close>

theorem checkAuth_user:
  assumes "backend en ''GET'' ''/api/me'' = Resolved res" and "ok res"
    and "json res = Inr (JObj fs)" and "map_of fs ''user'' = Some (JObj ufs)"
  shows "checkAuth en w =
           (w\<lparr>currentUser := JObj ufs,
              trace := trace w @ [Fetch ''GET'' ''/api/me'', SetCurrentUser (JObj ufs)]\<rparr>,
            JObj ufs)"
  using assms
  by (simp add: checkAuth_def checkAuth_try_def set_currentUser_def emit_def
      opt_user_def nullish_def)

theorem checkAuth_user_witness:
  "backend (answer (reply 200 (Inr (JObj [(''authenticated'', JBool True), (''user'', alice)])))
       quiet) ''GET'' ''/api/me''
     = Resolved \<lparr>status = 200,
                 json = Inr (JObj [(''authenticated'', JBool True), (''user'', alice)])\<rparr>
   \<and> ok \<lparr>status = 200, json = Inr (JObj [(''authenticated'', JBool True), (''user'', alice)])\<rparr>
   \<and> map_of [(''authenticated'', JBool True), (''user'', alice)] ''user'' = Some alice
   \<and> checkAuth (answer (reply 200 (Inr (JObj [(''authenticated'', JBool True), (''user'', alice)])))
        quiet) (fresh\<lparr>currentUser := bob\<rparr>)
     = (fresh\<lparr>currentUser := alice,
              trace := [Fetch ''GET'' ''/api/me'', SetCurrentUser alice]\<rparr>, alice)"
proof -
  let ?fs = "[(''authenticated'', JBool True), (''user'', alice)]"
  let ?r = "\<lparr>status = 200, json = Inr (JObj ?fs)\<rparr>"
  let ?en = "answer (reply 200 (Inr (JObj ?fs))) quiet"
  let ?ufs = "[(''id'', JNum 7), (''email'', JStr ''alice@jobly.test''), (''rol'', JStr ''empresa'')]"
  have b: "backend ?en ''GET'' ''/api/me'' = Resolved ?r"
    by (simp add: answer_def reply_def)
  have o: "ok ?r" by (simp add: ok_def)
  have j: "json ?r = Inr (JObj ?fs)" by simp
  have u: "map_of ?fs ''user'' = Some (JObj ?ufs)" by (simp add: alice_def)
  from checkAuth_user [OF b o j u, of "fresh\<lparr>currentUser := bob\<rparr>"] b o u
  show ?thesis by (simp add: fresh_def alice_def)
qed

text \<open>
  C3. Whenever the session check fails other than by a 401 (the request is rejected, or
  the response is not ok with a status other than 401, or \<^verbatim>\<open>res.json()\<close> throws),
  \<^verbatim>\<open>checkAuth\<close> logs that error with \<^verbatim>\<open>console.error\<close> and then navigates to
  \<^verbatim>\<open>/login\<close>: after the request these two, in this order, are the run's only
  effects, and \<^verbatim>\<open>null\<close> is returned.
\<close>

theorem checkAuth_failure:
  assumes "backend en ''GET'' ''/api/me'' = Rejected err
         \<or> (\<exists>res. backend en ''GET'' ''/api/me'' = Resolved res \<and> \<not> ok res
                   \<and> status res \<noteq> 401 \<and> err = Error ''Auth check failed'')
         \<or> (\<exists>res. backend en ''GET'' ''/api/me'' = Resolved res \<and> ok res
                   \<and> json res = Inl err)"
  shows "checkAuth en w =
           (w\<lparr>location_href := ''/login'',
              trace := trace w @ [Fetch ''GET'' ''/api/me'',
                                  ConsoleError ''Error during auth check:'' err,
                                  Navigate ''/login'']\<rparr>, JNull)"
  using assms
  by (auto simp: checkAuth_def checkAuth_try_def navigate_def console_error_def emit_def)

theorem checkAuth_failure_witness:
  "checkAuth (answer (Rejected (TypeError ''Failed to fetch'')) quiet) fresh
     = (fresh\<lparr>location_href := ''/login'',
              trace := [Fetch ''GET'' ''/api/me'',
                        ConsoleError ''Error during auth check:'' (TypeError ''Failed to fetch''),
                        Navigate ''/login'']\<rparr>, JNull)
   \<and> checkAuth (answer (reply 500 (Inr JNull)) quiet) fresh
     = (fresh\<lparr>location_href := ''/login'',
              trace := [Fetch ''GET'' ''/api/me'',
                        ConsoleError ''Error during auth check:'' (Error ''Auth check failed''),
                        Navigate ''/login'']\<rparr>, JNull)
   \<and> checkAuth (answer (reply 200 (Inl (SyntaxError ''Unexpected token <''))) quiet) fresh
     = (fresh\<lparr>location_href := ''/login'',
              trace := [Fetch ''GET'' ''/api/me'',
                        ConsoleError ''Error during auth check:'' (SyntaxError ''Unexpected token <''),
                        Navigate ''/login'']\<rparr>, JNull)"
proof -
  have a: "backend (answer (Rejected (TypeError ''Failed to fetch'')) quiet) ''GET'' ''/api/me''
             = Rejected (TypeError ''Failed to fetch'')"
    by (simp add: answer_def)
  have b: "\<exists>res. backend (answer (reply 500 (Inr JNull)) quiet) ''GET'' ''/api/me'' = Resolved res
             \<and> \<not> ok res \<and> status res \<noteq> 401 \<and> Error ''Auth check failed'' = Error ''Auth check failed''"
    by (simp add: answer_def reply_def ok_def)
  have c: "\<exists>res. backend (answer (reply 200 (Inl (SyntaxError ''Unexpected token <''))) quiet)
               ''GET'' ''/api/me'' = Resolved res
             \<and> ok res \<and> json res = Inl (SyntaxError ''Unexpected token <'')"
    by (simp add: answer_def reply_def ok_def)
  from checkAuth_failure [OF disjI1, OF a, of fresh]
       checkAuth_failure [OF disjI2, OF disjI1, OF b, of fresh]
       checkAuth_failure [OF disjI2, OF disjI2, OF c, of fresh]
  show ?thesis by (simp add: fresh_def)
qed

text \<open>
  C7. Whenever \<^verbatim>\<open>GET /api/me\<close> succeeds and the parsed body is \<^verbatim>\<open>null\<close>, or
  has no \<^verbatim>\<open>user\<close> field (it is an object without that field, or a value that has
  no fields), or has a \<^verbatim>\<open>user\<close> field that is \<^verbatim>\<open>null\<close>, \<^verbatim>\<open>checkAuth\<close>
  does not assign \<^verbatim>\<open>window.currentUser\<close> and returns \<^verbatim>\<open>null\<close>: the request is
  the run's only effect.
\<close>

theorem checkAuth_no_user:
  assumes "backend en ''GET'' ''/api/me'' = Resolved res" and "ok res"
    and "json res = Inr data"
    and "data = JNull
         \<or> (\<forall>fs. data = JObj fs \<longrightarrow>
                map_of fs ''user'' = None \<or> map_of fs ''user'' = Some JNull)"
  shows "checkAuth en w = (w\<lparr>trace := trace w @ [Fetch ''GET'' ''/api/me'']\<rparr>, JNull)
         \<and> currentUser (fst (checkAuth en w)) = currentUser w"
  using assms
  by (cases data)
     (auto simp: checkAuth_def checkAuth_try_def emit_def opt_user_def nullish_def)

theorem checkAuth_no_user_witness:
  "ok \<lparr>status = 200, json = Inr (JObj [(''authenticated'', JBool False)])\<rparr>
   \<and> map_of [(''authenticated'', JBool False)] ''user'' = None
   \<and> checkAuth (answer (reply 200 (Inr (JObj [(''authenticated'', JBool False)]))) quiet)
        (fresh\<lparr>currentUser := bob\<rparr>)
     = (fresh\<lparr>currentUser := bob, trace := [Fetch ''GET'' ''/api/me'']\<rparr>, JNull)
   \<and> checkAuth (answer (reply 200 (Inr JNull)) quiet) fresh
     = (fresh\<lparr>trace := [Fetch ''GET'' ''/api/me'']\<rparr>, JNull)"
proof -
  let ?fs = "[(''authenticated'', JBool False)]"
  let ?r = "\<lparr>status = 200, json = Inr (JObj ?fs)\<rparr>"
  let ?n = "\<lparr>status = 200, json = Inr JNull\<rparr>"
  have b: "backend (answer (reply 200 (Inr (JObj ?fs))) quiet) ''GET'' ''/api/me'' = Resolved ?r"
    by (simp add: answer_def reply_def)
  have o: "ok ?r" by (simp add: ok_def)
  have j: "json ?r = Inr (JObj ?fs)" by simp
  have m: "map_of ?fs ''user'' = None" by simp
  have h: "JObj ?fs = JNull
           \<or> (\<forall>fs. JObj ?fs = JObj fs \<longrightarrow>
                  map_of fs ''user'' = None \<or> map_of fs ''user'' = Some JNull)"
    by simp
  have b': "backend (answer (reply 200 (Inr JNull)) quiet) ''GET'' ''/api/me'' = Resolved ?n"
    by (simp add: answer_def reply_def)
  have o': "ok ?n" by (simp add: ok_def)
  have j': "json ?n = Inr JNull" by simp
  have h': "JNull = JNull
           \<or> (\<forall>fs. JNull = JObj fs \<longrightarrow>
                  map_of fs ''user'' = None \<or> map_of fs ''user'' = Some JNull)"
    by simp
  from checkAuth_no_user [OF b o j h, of "fresh\<lparr>currentUser := bob\<rparr>"]
       checkAuth_no_user [OF b' o' j' h', of fresh] o m
  show ?thesis by (simp add: fresh_def)
qed

text \<open>
  C8, as the code has it. A run of \<^verbatim>\<open>checkAuth\<close> overwrites
  \<^verbatim>\<open>window.currentUser\<close> only when it obtained a user: if the response is ok and the
  body's \<^verbatim>\<open>user\<close> field holds a truthy value, the current user after the run is
  that value, whatever it was before; in every other run (401, any other failure, a
  body without a truthy user) the current user is left as it was.
\<close>

theorem checkAuth_currentUser:
  "(backend en ''GET'' ''/api/me'' = Resolved res \<and> ok res \<and> json res = Inr (JObj fs)
      \<and> map_of fs ''user'' = Some u \<and> truthy u
      \<longrightarrow> currentUser (fst (checkAuth en w)) = u)
   \<and> ((\<nexists>res fs u. backend en ''GET'' ''/api/me'' = Resolved res \<and> ok res
          \<and> json res = Inr (JObj fs) \<and> map_of fs ''user'' = Some u \<and> truthy u)
      \<longrightarrow> currentUser (fst (checkAuth en w)) = currentUser w)"
proof (intro conjI impI)
  assume "backend en ''GET'' ''/api/me'' = Resolved res \<and> ok res \<and> json res = Inr (JObj fs)
      \<and> map_of fs ''user'' = Some u \<and> truthy u"
  then show "currentUser (fst (checkAuth en w)) = u"
    by (cases u)
       (auto simp: checkAuth_def checkAuth_try_def set_currentUser_def emit_def
          opt_user_def nullish_def)
next
  assume none: "\<nexists>res fs u. backend en ''GET'' ''/api/me'' = Resolved res \<and> ok res
          \<and> json res = Inr (JObj fs) \<and> map_of fs ''user'' = Some u \<and> truthy u"
  show "currentUser (fst (checkAuth en w)) = currentUser w"
  proof (cases "backend en ''GET'' ''/api/me''")
    case (Rejected e)
    then show ?thesis
      by (simp add: checkAuth_def checkAuth_try_def navigate_def console_error_def emit_def)
  next
    case (Resolved res)
    show ?thesis
    proof (cases "ok res")
      case False
      with Resolved show ?thesis
        by (simp add: checkAuth_def checkAuth_try_def navigate_def console_error_def emit_def)
    next
      case True
      show ?thesis
      proof (cases "json res")
        case (Inl e)
        with Resolved True show ?thesis
          by (simp add: checkAuth_def checkAuth_try_def navigate_def console_error_def emit_def)
      next
        case (Inr data)
        have "\<And>fs u. data = JObj fs \<Longrightarrow> map_of fs ''user'' = Some u \<Longrightarrow> \<not> truthy u"
          using none Resolved True Inr by blast
        then have "\<not> truthy data \<or> (\<exists>v. get_user data = Inr v \<and> \<not> truthy v)"
          by (cases data) (auto split: option.splits)
        with Resolved True Inr show ?thesis
          by (cases data)
             (auto simp: checkAuth_def checkAuth_try_def emit_def opt_user_def nullish_def
                split: sum.splits)
      qed
    qed
  qed
qed

theorem checkAuth_currentUser_witness:
  "currentUser (fst (checkAuth
      (answer (reply 200 (Inr (JObj [(''authenticated'', JBool True), (''user'', alice)]))) quiet)
      (fresh\<lparr>currentUser := bob\<rparr>))) = alice
   \<and> currentUser (fst (checkAuth (answer (reply 401 (Inr JNull)) quiet)
        (fresh\<lparr>currentUser := bob\<rparr>))) = bob"
proof -
  let ?fs = "[(''authenticated'', JBool True), (''user'', alice)]"
  let ?en = "answer (reply 200 (Inr (JObj ?fs))) quiet"
  let ?r = "\<lparr>status = 200, json = Inr (JObj ?fs)\<rparr>"
  let ?en' = "answer (reply 401 (Inr JNull)) quiet"
  have a: "backend ?en ''GET'' ''/api/me'' = Resolved ?r \<and> ok ?r \<and> json ?r = Inr (JObj ?fs)
      \<and> map_of ?fs ''user'' = Some alice \<and> truthy alice"
    by (simp add: answer_def reply_def ok_def alice_def)
  have b: "\<nexists>res fs u. backend ?en' ''GET'' ''/api/me'' = Resolved res \<and> ok res
          \<and> json res = Inr (JObj fs) \<and> map_of fs ''user'' = Some u \<and> truthy u"
    by (simp add: answer_def reply_def ok_def)
  from checkAuth_currentUser [of ?en ?r ?fs alice "fresh\<lparr>currentUser := bob\<rparr>"] a
  have 1: "currentUser (fst (checkAuth ?en (fresh\<lparr>currentUser := bob\<rparr>))) = alice"
    by blast
  from checkAuth_currentUser [of ?en' _ _ _ "fresh\<lparr>currentUser := bob\<rparr>"] b
  have 2: "currentUser (fst (checkAuth ?en' (fresh\<lparr>currentUser := bob\<rparr>))) = currentUser (fresh\<lparr>currentUser := bob\<rparr>)"
    by blast
  from 1 2 show ?thesis by simp
qed

text \<open>
  C8 as stated fails: with \<^verbatim>\<open>window.currentUser\<close> holding a user from before, a
  successful answer without a \<^verbatim>\<open>user\<close> field leaves that old value in place,
  while the run obtained no user (the field reads \<^verbatim>\<open>undefined\<close>, the result is
  \<^verbatim>\<open>null\<close>).
\<close>

theorem checkAuth_overwrite_counterexample:
  "ok \<lparr>status = 200, json = Inr (JObj [(''authenticated'', JBool False)])\<rparr>
   \<and> opt_user (JObj [(''authenticated'', JBool False)]) = Inr JUndefined
   \<and> snd (checkAuth (answer (reply 200 (Inr (JObj [(''authenticated'', JBool False)]))) quiet)
        (fresh\<lparr>currentUser := bob\<rparr>)) = JNull
   \<and> currentUser (fst (checkAuth
        (answer (reply 200 (Inr (JObj [(''authenticated'', JBool False)]))) quiet)
        (fresh\<lparr>currentUser := bob\<rparr>))) = bob
   \<and> bob \<noteq> JUndefined \<and> bob \<noteq> JNull"
  by (simp add: checkAuth_def checkAuth_try_def answer_def reply_def ok_def emit_def
      opt_user_def nullish_def fresh_def bob_def)

section \<open>Properties of logout and of the page-ready listener\<close>

text \<open>
  C4. Every invocation of the logout operation, as \<^verbatim>\<open>doLogout\<close>, as
  \<^verbatim>\<open>window.handleLogout\<close> or from the logout button, ends by navigating to
  \<^verbatim>\<open>/login\<close>: the navigation is the last effect and the location is
  \<^verbatim>\<open>/login\<close> afterwards, for every environment, that is, whether
  \<^verbatim>\<open>POST /api/logout\<close> resolves (ok or not) or is rejected, and whichever
  \<^verbatim>\<open>removeItem\<close> calls throw.
\<close>

theorem doLogout_navigates:
  "location_href (doLogout en w) = ''/login''
   \<and> last (trace (doLogout en w)) = Navigate ''/login''
   \<and> location_href (handleLogout en w) = ''/login''
   \<and> last (trace (handleLogout en w)) = Navigate ''/login''
   \<and> location_href (logoutBtn_click en w) = ''/login''
   \<and> last (trace (logoutBtn_click en w)) = Navigate ''/login''"
  by (simp add: handleLogout_def logoutBtn_click_def doLogout_def navigate_def emit_def Let_def)

lemma removeItem_cases:
  "removeItem en k w =
     (if removeItem_throws en k then (w, Some (DOMException ''SecurityError''))
      else (w\<lparr>localStorage := (localStorage w)(k := None), trace := trace w @ [RemoveItem k]\<rparr>, None))"
  by (simp add: removeItem_def emit_def)

lemma removeItem_storage:
  "localStorage (fst (removeItem en k w)) =
     (if removeItem_throws en k then localStorage w else (localStorage w)(k := None))"
  by (simp add: removeItem_cases)

lemma run_removeItems_storage:
  "localStorage (fst (run_stmts (map (removeItem en) ks) w)) k =
     (if k \<in> set (takeWhile (\<lambda>k. \<not> removeItem_throws en k) ks) then None else localStorage w k)"
proof (induction ks arbitrary: w)
  case Nil
  then show ?case by simp
next
  case (Cons a ks)
  show ?case
  proof (cases "removeItem_throws en a")
    case True
    then show ?thesis by (simp add: removeItem_cases)
  next
    case False
    then show ?thesis using Cons [of "fst (removeItem en a w)"]
      by (simp add: removeItem_cases)
  qed
qed

lemma logout_storage_after:
  "localStorage (doLogout en w) k =
     (if k \<in> set (takeWhile (\<lambda>k. \<not> removeItem_throws en k)
                 [''jobly_user'', ''authEmail'', ''employerRegistration'', ''ultimaVacanteId''])
      then None else localStorage w k)"
proof -
  have 1: "localStorage (doLogout en w)
      = localStorage (fst (run_stmts (map (removeItem en)
           [''jobly_user'', ''authEmail'', ''employerRegistration'', ''ultimaVacanteId''])
           (fst (fetch en ''/api/logout'' ''POST'' w))))"
    by (simp add: doLogout_def navigate_def emit_def Let_def)
  have 2: "localStorage (fst (fetch en ''/api/logout'' ''POST'' w)) = localStorage w"
    by (simp add: fetch_def emit_def)
  show ?thesis
    by (simp only: 1 run_removeItems_storage 2)
qed

text \<open>
  C5, as the code has it. When none of the four \<^verbatim>\<open>removeItem\<close> calls throws,
  logout removes exactly the keys \<^verbatim>\<open>jobly_user\<close>, \<^verbatim>\<open>authEmail\<close>,
  \<^verbatim>\<open>employerRegistration\<close> and \<^verbatim>\<open>ultimaVacanteId\<close> and leaves every
  other key as it was. In every invocation, throwing or not, no key other than these
  four is touched, and none of the four is given a new value.
\<close>

theorem doLogout_storage:
  "((\<forall>k \<in> {''jobly_user'', ''authEmail'', ''employerRegistration'', ''ultimaVacanteId''}.
        \<not> removeItem_throws en k)
      \<longrightarrow> localStorage (doLogout en w)
            = localStorage w |` (- {''jobly_user'', ''authEmail'', ''employerRegistration'',
                                     ''ultimaVacanteId''}))
   \<and> (\<forall>k. k \<notin> {''jobly_user'', ''authEmail'', ''employerRegistration'', ''ultimaVacanteId''}
        \<longrightarrow> localStorage (doLogout en w) k = localStorage w k)
   \<and> (\<forall>k. localStorage (doLogout en w) k = None
          \<or> localStorage (doLogout en w) k = localStorage w k)"
proof (intro conjI impI allI)
  assume a: "\<forall>k \<in> {''jobly_user'', ''authEmail'', ''employerRegistration'', ''ultimaVacanteId''}.
            \<not> removeItem_throws en k"
  then have "takeWhile (\<lambda>k. \<not> removeItem_throws en k)
                 [''jobly_user'', ''authEmail'', ''employerRegistration'', ''ultimaVacanteId'']
             = [''jobly_user'', ''authEmail'', ''employerRegistration'', ''ultimaVacanteId'']"
    by simp
  then have "\<And>k. localStorage (doLogout en w) k =
     (if k \<in> {''jobly_user'', ''authEmail'', ''employerRegistration'', ''ultimaVacanteId''}
      then None else localStorage w k)"
    by (simp only: logout_storage_after) simp
  then show "localStorage (doLogout en w)
       = localStorage w |` (- {''jobly_user'', ''authEmail'', ''employerRegistration'',
                                ''ultimaVacanteId''})"
    by (intro ext) (simp only: restrict_map_def, simp)
next
  fix k
  assume "k \<notin> {''jobly_user'', ''authEmail'', ''employerRegistration'', ''ultimaVacanteId''}"
  then have "k \<notin> set (takeWhile (\<lambda>k. \<not> removeItem_throws en k)
                 [''jobly_user'', ''authEmail'', ''employerRegistration'', ''ultimaVacanteId''])"
    using set_takeWhileD [of k "\<lambda>k. \<not> removeItem_throws en k"
        "[''jobly_user'', ''authEmail'', ''employerRegistration'', ''ultimaVacanteId'']"]
    by auto
  then show "localStorage (doLogout en w) k = localStorage w k"
    by (simp only: logout_storage_after if_False)
next
  fix k
  show "localStorage (doLogout en w) k = None
        \<or> localStorage (doLogout en w) k = localStorage w k"
    by (simp only: logout_storage_after split: if_split) simp
qed

theorem doLogout_storage_witness:
  "\<not> removeItem_throws (answer (reply 200 (Inr JNull)) quiet) ''jobly_user''
   \<and> \<not> removeItem_throws (answer (reply 200 (Inr JNull)) quiet) ''authEmail''
   \<and> \<not> removeItem_throws (answer (reply 200 (Inr JNull)) quiet) ''employerRegistration''
   \<and> \<not> removeItem_throws (answer (reply 200 (Inr JNull)) quiet) ''ultimaVacanteId''
   \<and> localStorage fresh ''jobly_user'' = Some ''alice''
   \<and> localStorage (doLogout (answer (reply 200 (Inr JNull)) quiet) fresh) ''jobly_user'' = None
   \<and> localStorage (doLogout (answer (reply 200 (Inr JNull)) quiet) fresh) ''theme'' = Some ''dark''"
proof -
  let ?en = "answer (reply 200 (Inr JNull)) quiet"
  let ?four = "{''jobly_user'', ''authEmail'', ''employerRegistration'', ''ultimaVacanteId''}"
  have q: "\<forall>k \<in> ?four. \<not> removeItem_throws ?en k"
    by (simp add: answer_def quiet_def)
  have t: "''theme'' \<notin> ?four" by simp
  have 1: "localStorage (doLogout ?en fresh) = localStorage fresh |` (- ?four)"
    by (rule doLogout_storage [of ?en fresh, THEN conjunct1, THEN mp, OF q])
  have 2: "localStorage (doLogout ?en fresh) ''theme'' = localStorage fresh ''theme''"
    by (rule doLogout_storage [of ?en fresh, THEN conjunct2, THEN conjunct1, THEN spec, THEN mp, OF t])
  have 3: "localStorage (doLogout ?en fresh) ''jobly_user'' = None"
    by (simp add: 1)
  have 4: "localStorage fresh ''theme'' = Some ''dark''" "localStorage fresh ''jobly_user'' = Some ''alice''"
    by (simp_all add: fresh_def)
  from q 2 3 4 show ?thesis by simp
qed

text \<open>
  C5 as stated fails: when storage is blocked, so that \<^verbatim>\<open>removeItem\<close> throws,
  the exception is swallowed and \<^verbatim>\<open>jobly_user\<close> is still there after logout.
\<close>

theorem doLogout_storage_counterexample:
  "removeItem_throws (answer (reply 200 (Inr JNull)) blocked) ''jobly_user''
   \<and> localStorage fresh ''jobly_user'' = Some ''alice''
   \<and> localStorage (doLogout (answer (reply 200 (Inr JNull)) blocked) fresh) ''jobly_user''
       = Some ''alice''
   \<and> location_href (doLogout (answer (reply 200 (Inr JNull)) blocked) fresh) = ''/login''"
proof -
  have t: "removeItem_throws (answer (reply 200 (Inr JNull)) blocked) ''jobly_user''"
    by (simp add: answer_def blocked_def)
  have s: "localStorage fresh ''jobly_user'' = Some ''alice''"
    by (simp add: fresh_def)
  have "localStorage (doLogout (answer (reply 200 (Inr JNull)) blocked) fresh) ''jobly_user''
       = localStorage fresh ''jobly_user''"
    by (simp add: logout_storage_after t)
  moreover have "location_href (doLogout (answer (reply 200 (Inr JNull)) blocked) fresh) = ''/login''"
    by (simp add: doLogout_def navigate_def emit_def Let_def)
  ultimately show ?thesis using t s by simp
qed

text \<open>
  C6. If \<^verbatim>\<open>window.SKIP_AUTH_GUARD\<close> is truthy when the \<^verbatim>\<open>DOMContentLoaded\<close>
  listener runs, the listener issues no network request: it has no effect at all beyond
  attaching the logout button's click listener, so \<^verbatim>\<open>checkAuth\<close> is not run and no
  \<^verbatim>\<open>GET /api/me\<close> is sent.
\<close>

theorem skip_guard_no_request:
  assumes "truthy (SKIP_AUTH_GUARD w)"
  shows "onDOMContentLoaded en w
           = (if logoutBtn w then w\<lparr>logoutBtn_listeners := Suc (logoutBtn_listeners w)\<rparr> else w)
         \<and> trace (onDOMContentLoaded en w) = trace w
         \<and> filter is_Fetch (trace (onDOMContentLoaded en w)) = filter is_Fetch (trace w)"
  using assms by (simp add: onDOMContentLoaded_def)

theorem skip_guard_no_request_witness:
  "truthy (SKIP_AUTH_GUARD (fresh\<lparr>SKIP_AUTH_GUARD := JBool True\<rparr>))
   \<and> onDOMContentLoaded (answer (reply 401 (Inr JNull)) quiet) (fresh\<lparr>SKIP_AUTH_GUARD := JBool True\<rparr>)
     = fresh\<lparr>SKIP_AUTH_GUARD := JBool True, logoutBtn_listeners := 1\<rparr>
   \<and> trace (onDOMContentLoaded (answer (reply 401 (Inr JNull)) quiet)
        (fresh\<lparr>SKIP_AUTH_GUARD := JBool True\<rparr>)) = []"
proof -
  have t: "truthy (SKIP_AUTH_GUARD (fresh\<lparr>SKIP_AUTH_GUARD := JBool True\<rparr>))" by simp
  from skip_guard_no_request [OF t, of "answer (reply 401 (Inr JNull)) quiet"] t
  show ?thesis by (simp add: fresh_def)
qed

lemma guard_runs_without_flag:
  "\<not> truthy (SKIP_AUTH_GUARD w) \<Longrightarrow>
   \<exists>evs. trace (onDOMContentLoaded en w) = trace w @ Fetch ''GET'' ''/api/me'' # evs"
  by (auto simp: onDOMContentLoaded_def checkAuth_def checkAuth_try_def navigate_def
        console_error_def set_currentUser_def emit_def
      split: fetch_outcome.splits sum.splits option.splits prod.splits if_splits)

section \<open>Properties of the bookmark control\<close>

lemma click_bookmark_path:
  "bookmark_path (fst (click_bookmark p)) = map_option toggle_path (bookmark_path p)"
  by (cases "bookmark_path p")
     (simp_all add: click_bookmark_def bookmark_click_def stopPropagation_def)

lemma clicks_keep_path:
  "bookmark_path p = Some svg \<Longrightarrow> \<exists>s. bookmark_path (clicks n p) = Some s"
  by (induction n) (auto simp: click_bookmark_path)

lemma toggle_path_fill:
  "getAttribute (toggle_path svg) ''fill'' = Some (if isFilled svg then ''none'' else ''#141514'')"
  by (simp add: toggle_path_def getAttribute_def setAttribute_def)

lemma toggle_path_stroke:
  "getAttribute (toggle_path svg) ''stroke'' = Some (if isFilled svg then ''#141514'' else ''none'')"
  by (simp add: toggle_path_def getAttribute_def setAttribute_def)

lemma isFilled_toggle_path: "isFilled (toggle_path svg) = (\<not> isFilled svg)"
  by (simp add: isFilled_def [of "toggle_path svg"] toggle_path_fill)

text \<open>
  C9. Every click on a bookmark control calls \<^verbatim>\<open>stopPropagation\<close>, so the job
  card's click listener does not run for that click (nothing is logged). When the
  control contains its SVG path, the click sets the path's \<^verbatim>\<open>fill\<close> to
  \<^verbatim>\<open>none\<close> if it was filled and to \<^verbatim>\<open>#141514\<close> if it was \<^verbatim>\<open>none\<close>, so
  one click flips the fill state and two clicks in a row restore it.
\<close>

theorem bookmark_click_toggles:
  "propagationStopped (snd (click_bookmark p))
   \<and> console (fst (click_bookmark p)) = console p
   \<and> (bookmark_path p = Some svg \<longrightarrow>
        bookmark_path (fst (click_bookmark p)) = Some (toggle_path svg)
        \<and> getAttribute (toggle_path svg) ''fill''
            = Some (if getAttribute svg ''fill'' = Some ''none'' then ''#141514'' else ''none'')
        \<and> isFilled (toggle_path svg) = (\<not> isFilled svg)
        \<and> bookmark_path (clicks 2 p) = Some (toggle_path (toggle_path svg))
        \<and> isFilled (toggle_path (toggle_path svg)) = isFilled svg
        \<and> (getAttribute svg ''fill'' = Some ''none''
             \<longrightarrow> getAttribute (toggle_path (toggle_path svg)) ''fill'' = Some ''none''))"
proof (intro conjI impI)
  show "propagationStopped (snd (click_bookmark p))"
    by (cases "bookmark_path p")
       (simp_all add: click_bookmark_def bookmark_click_def stopPropagation_def)
  show "console (fst (click_bookmark p)) = console p"
    by (cases "bookmark_path p")
       (simp_all add: click_bookmark_def bookmark_click_def stopPropagation_def)
next
  assume p: "bookmark_path p = Some svg"
  show "bookmark_path (fst (click_bookmark p)) = Some (toggle_path svg)"
    by (simp add: click_bookmark_path p)
  have "clicks 2 p = fst (click_bookmark (fst (click_bookmark p)))"
    by (simp add: numeral_2_eq_2)
  then show "bookmark_path (clicks 2 p) = Some (toggle_path (toggle_path svg))"
    by (simp add: click_bookmark_path p)
next
  show "getAttribute (toggle_path svg) ''fill''
            = Some (if getAttribute svg ''fill'' = Some ''none'' then ''#141514'' else ''none'')"
    by (simp add: toggle_path_fill isFilled_def)
  show "isFilled (toggle_path svg) = (\<not> isFilled svg)"
    by (rule isFilled_toggle_path)
  show "isFilled (toggle_path (toggle_path svg)) = isFilled svg"
    by (simp add: isFilled_toggle_path)
next
  assume "getAttribute svg ''fill'' = Some ''none''"
  then show "getAttribute (toggle_path (toggle_path svg)) ''fill'' = Some ''none''"
    by (simp add: toggle_path_fill isFilled_toggle_path isFilled_def)
qed

theorem bookmark_click_toggles_witness:
  "bookmark_path card = Some outline_icon
   \<and> getAttribute outline_icon ''fill'' = Some ''none''
   \<and> propagationStopped (snd (click_bookmark card))
   \<and> console (fst (click_bookmark card)) = []
   \<and> map_option (\<lambda>svg. getAttribute svg ''fill'') (bookmark_path (fst (click_bookmark card)))
       = Some (Some ''#141514'')
   \<and> map_option (\<lambda>svg. getAttribute svg ''fill'') (bookmark_path (clicks 2 card))
       = Some (Some ''none'')"
proof -
  have p: "bookmark_path card = Some outline_icon" by (simp add: card_def)
  have f: "getAttribute outline_icon ''fill'' = Some ''none''"
    by (simp add: getAttribute_def outline_icon_def)
  from bookmark_click_toggles [of card outline_icon] p f
  show ?thesis by (simp add: card_def)
qed

text \<open>
  C10. Whatever attributes the SVG path starts with, after any click on the bookmark
  control the pair (\<^verbatim>\<open>fill\<close>, \<^verbatim>\<open>stroke\<close>) is one of the two states
  (\<^verbatim>\<open>none\<close>, \<^verbatim>\<open>#141514\<close>) and (\<^verbatim>\<open>#141514\<close>, \<^verbatim>\<open>none\<close>), and the next
  click moves it to the other one.
\<close>

theorem bookmark_two_states:
  assumes "bookmark_path p = Some svg"
  shows "(paint (clicks (Suc n) p) = Some (Some ''none'', Some ''#141514'')
            \<and> paint (clicks (Suc (Suc n)) p) = Some (Some ''#141514'', Some ''none''))
         \<or> (paint (clicks (Suc n) p) = Some (Some ''#141514'', Some ''none'')
            \<and> paint (clicks (Suc (Suc n)) p) = Some (Some ''none'', Some ''#141514''))"
proof -
  from clicks_keep_path [OF assms, of n]
  obtain s where s: "bookmark_path (clicks n p) = Some s" by blast
  have 1: "bookmark_path (clicks (Suc n) p) = Some (toggle_path s)"
    by (simp add: click_bookmark_path s)
  have 2: "bookmark_path (clicks (Suc (Suc n)) p) = Some (toggle_path (toggle_path s))"
    using 1 by (simp add: click_bookmark_path s)
  show ?thesis
    unfolding paint_def 1 2
    by (cases "isFilled s")
       (simp_all add: toggle_path_fill toggle_path_stroke isFilled_toggle_path)
qed

theorem bookmark_two_states_witness:
  "bookmark_path card = Some outline_icon
   \<and> paint card = Some (Some ''none'', Some ''#6B7280'')
   \<and> paint (clicks 1 card) = Some (Some ''#141514'', Some ''none'')
   \<and> paint (clicks 2 card) = Some (Some ''none'', Some ''#141514'')
   \<and> paint (clicks 3 card) = Some (Some ''#141514'', Some ''none'')"
proof -
  have p: "bookmark_path card = Some outline_icon" by (simp add: card_def)
  have c: "paint card = Some (Some ''none'', Some ''#6B7280'')"
    by (simp add: paint_def card_def outline_icon_def getAttribute_def)
  have o: "\<not> isFilled outline_icon"
    by (simp add: isFilled_def outline_icon_def getAttribute_def)
  have 1: "paint (clicks 1 card) = Some (Some ''#141514'', Some ''none'')"
    by (simp add: paint_def click_bookmark_path p toggle_path_fill toggle_path_stroke o)
  have n: "clicks 2 card = clicks (Suc (Suc 0)) card" "clicks 3 card = clicks (Suc (Suc (Suc 0))) card"
          "clicks 1 card = clicks (Suc 0) card"
    by (simp_all add: numeral_2_eq_2 numeral_3_eq_3)
  from bookmark_two_states [OF p, of 0] bookmark_two_states [OF p, of "Suc 0"] 1
  have "paint (clicks 2 card) = Some (Some ''none'', Some ''#141514'')
        \<and> paint (clicks 3 card) = Some (Some ''#141514'', Some ''none'')"
    unfolding n by auto
  with p c 1 show ?thesis by simp
qed

end
